theory Spec2Isabelle
  imports
    Main
    "HOL-Library.Char_ord"
    "HOL-Library.List_Lexorder"
    "HOL-Library.Sublist"
begin

section \<open>The confined file accessor of \<^verbatim>\<open>filesystem.py\<close>\<close>

text \<open>
  The four tools \<^verbatim>\<open>list_directory\<close>, \<^verbatim>\<open>read_file\<close>, \<^verbatim>\<open>search_files\<close> and
  \<^verbatim>\<open>get_file_info\<close> are embedded as functions of an explicit file system (a tree) and an
  environment holding the project root, the MIME table and the clock. Every Python
  exception is a value, and every call that reaches the file system is written to a log,
  so that the order of checks and accesses can be stated.

  A Python \<^verbatim>\<open>str\<close> is modelled by the \<^typ>\<open>string\<close> of its UTF-8 bytes, a \<^verbatim>\<open>bytes\<close> object
  by the list of its bytes. The order on strings is the lexicographic order on bytes,
  which on UTF-8 is the order of code points that Python compares by. The result of a
  tool is the dictionary that it hands to \<^verbatim>\<open>json.dumps\<close>.
\<close>

subsection \<open>Strings\<close>

type_synonym bytes = "char list"

text \<open>\<^verbatim>\<open>str.lower\<close>, on the ASCII letters.\<close>

definition char_lower :: "char \<Rightarrow> char" where
  "char_lower c =
     (case map_of (zip ''ABCDEFGHIJKLMNOPQRSTUVWXYZ'' ''abcdefghijklmnopqrstuvwxyz'') c of
        None \<Rightarrow> c
      | Some l \<Rightarrow> l)"

definition str_lower :: "string \<Rightarrow> string" where
  "str_lower s = map char_lower s"

text \<open>\<^verbatim>\<open>a in b\<close> on strings: \<open>a\<close> occurs in \<open>b\<close> as a contiguous block.\<close>

fun is_substring :: "string \<Rightarrow> string \<Rightarrow> bool" where
  "is_substring a [] = (a = [])"
| "is_substring a (c # cs) = (prefix a (c # cs) \<or> is_substring a cs)"

definition startswith :: "string \<Rightarrow> string \<Rightarrow> bool" where
  "startswith s p = prefix p s"

text \<open>\<^verbatim>\<open>str.rfind\<close> of one character: the last index holding it, or \<open>-1\<close>.\<close>

definition rfind :: "string \<Rightarrow> char \<Rightarrow> int" where
  "rfind s c =
     (if c \<in> set s then int (length s) - 1 - int (length (takeWhile (\<lambda>x. x \<noteq> c) (rev s)))
      else - 1)"

text \<open>\<^verbatim>\<open>str.join\<close> and \<^verbatim>\<open>str.split\<close> with a one-character separator.\<close>

fun join :: "string \<Rightarrow> string list \<Rightarrow> string" where
  "join sep [] = []"
| "join sep [x] = x"
| "join sep (x # y # ys) = x @ sep @ join sep (y # ys)"

fun split_on :: "char \<Rightarrow> string \<Rightarrow> string list" where
  "split_on sep [] = [[]]"
| "split_on sep (c # cs) =
     (if c = sep then [] # split_on sep cs
      else (case split_on sep cs of
              [] \<Rightarrow> [[c]]
            | w # ws \<Rightarrow> (c # w) # ws))"

text \<open>The decimal digits of a natural number, as an f-string prints it.\<close>

function str_of_nat :: "nat \<Rightarrow> string" where
  "str_of_nat n =
     (if n < 10 then [''0123456789'' ! n]
      else str_of_nat (n div 10) @ [''0123456789'' ! (n mod 10)])"
  by pat_completeness auto
termination
  by (relation "measure id") auto

declare str_of_nat.simps [simp del]

subsection \<open>Paths\<close>

text \<open>
  An absolute, normalised path is the list of its components below \<^verbatim>\<open>/\<close>.
\<close>

type_synonym path = "string list"

definition path_str :: "path \<Rightarrow> string" where
  "path_str p = CHR ''/'' # join ''/'' p"

definition path_name :: "path \<Rightarrow> string" where
  "path_name p = (if p = [] then [] else last p)"

text \<open>
  \<^verbatim>\<open>PurePath.suffix\<close>: the part of the name from its last dot on, unless that dot is the
  first or the last character of the name.
\<close>

definition path_suffix :: "path \<Rightarrow> string" where
  "path_suffix p =
     (let name = path_name p; i = rfind name (CHR ''.'')
      in if 0 < i \<and> i < int (length name) - 1 then drop (nat i) name else [])"

text \<open>\<^verbatim>\<open>str(p.relative_to(root))\<close>, which raises \<^verbatim>\<open>ValueError\<close> (here \<open>None\<close>) outside \<open>root\<close>.\<close>

definition relative_to :: "path \<Rightarrow> path \<Rightarrow> string option" where
  "relative_to p root =
     (if prefix root p
      then Some (let r = drop (length root) p in if r = [] then ''.'' else join ''/'' r)
      else None)"

text \<open>\<^verbatim>\<open>root in p.parents\<close>: \<open>root\<close> is a proper ancestor of \<open>p\<close>.\<close>

definition in_parents :: "path \<Rightarrow> path \<Rightarrow> bool" where
  "in_parents root p = strict_prefix root p"

text \<open>
  The match of one name against a shell pattern, as \<^verbatim>\<open>glob\<close> does it: \<^verbatim>\<open>*\<close> stands for
  any run of characters, \<^verbatim>\<open>?\<close> for one character.
\<close>

fun fnmatch :: "string \<Rightarrow> string \<Rightarrow> bool" where
  "fnmatch [] [] = True"
| "fnmatch [] (p # ps) = (p = CHR ''*'' \<and> fnmatch [] ps)"
| "fnmatch (c # cs) [] = False"
| "fnmatch (c # cs) (p # ps) =
     (if p = CHR ''*'' then fnmatch (c # cs) ps \<or> fnmatch cs (p # ps)
      else (p = CHR ''?'' \<or> p = c) \<and> fnmatch cs ps)"

subsection \<open>Exceptions\<close>

datatype exn_class =
    FileNotFoundError
  | NotADirectoryError
  | IsADirectoryError
  | PermissionError
  | OSError
  | ValueError
  | UnicodeDecodeError
  | AccessDenied

datatype exn = Exn (exn_class: exn_class) (exn_msg: string)

text \<open>\<^verbatim>\<open>type(e).__name__\<close>\<close>

fun class_name :: "exn_class \<Rightarrow> string" where
  "class_name FileNotFoundError = ''FileNotFoundError''"
| "class_name NotADirectoryError = ''NotADirectoryError''"
| "class_name IsADirectoryError = ''IsADirectoryError''"
| "class_name PermissionError = ''PermissionError''"
| "class_name OSError = ''OSError''"
| "class_name ValueError = ''ValueError''"
| "class_name UnicodeDecodeError = ''UnicodeDecodeError''"
| "class_name AccessDenied = ''AccessDenied''"

text \<open>The classes that \<^verbatim>\<open>except (OSError, PermissionError)\<close> catches.\<close>

fun is_OSError :: "exn_class \<Rightarrow> bool" where
  "is_OSError FileNotFoundError = True"
| "is_OSError NotADirectoryError = True"
| "is_OSError IsADirectoryError = True"
| "is_OSError PermissionError = True"
| "is_OSError OSError = True"
| "is_OSError ValueError = False"
| "is_OSError UnicodeDecodeError = False"
| "is_OSError AccessDenied = False"

subsection \<open>The file system\<close>

record stat_result =
  st_size :: nat
  st_mtime :: int

text \<open>
  A regular file has its \<^verbatim>\<open>stat\<close> record, its bytes and a flag telling whether it can be
  opened; the size that \<^verbatim>\<open>stat\<close> reports is a field of its own. A directory lists its
  children in enumeration order. \<open>Special\<close> is an entry that is neither (a socket, a
  device); \<open>Inaccessible\<close> is an entry on which \<^verbatim>\<open>stat\<close> raises, and for which
  \<^verbatim>\<open>exists\<close>, \<^verbatim>\<open>is_dir\<close> and \<^verbatim>\<open>is_file\<close> answer no.
\<close>

datatype fsnode =
    File stat_result bytes bool
  | Dir stat_result "(string \<times> fsnode) list"
  | Special stat_result
  | Inaccessible

fun fs_lookup :: "fsnode \<Rightarrow> path \<Rightarrow> fsnode option" where
  "fs_lookup n [] = Some n"
| "fs_lookup (Dir st ch) (c # cs) =
     (case map_of ch c of None \<Rightarrow> None | Some n \<Rightarrow> fs_lookup n cs)"
| "fs_lookup n (c # cs) = None"

datatype fs_call =
    Exists path
  | IsDir path
  | IsFile path
  | Stat path
  | Iterdir path
  | Glob path string
  | RGlob path string
  | OpenText path string
  | OpenBinary path

text \<open>
  A computation yields an exception or a value, together with the file-system calls it
  made, in order.
\<close>

type_synonym 'a io = "(exn + 'a) \<times> fs_call list"

definition io_return :: "'a \<Rightarrow> 'a io" where
  "io_return x = (Inr x, [])"

definition io_raise :: "exn \<Rightarrow> 'a io" where
  "io_raise e = (Inl e, [])"

definition io_bind :: "'a io \<Rightarrow> ('a \<Rightarrow> 'b io) \<Rightarrow> 'b io" where
  "io_bind m f =
     (case m of
        (Inl e, t) \<Rightarrow> (Inl e, t)
      | (Inr x, t) \<Rightarrow> (case f x of (r, t') \<Rightarrow> (r, t @ t')))"

text \<open>\<^verbatim>\<open>try: m except ...: h\<close>, where \<open>h\<close> re-raises what its clause does not name.\<close>

definition io_try :: "'a io \<Rightarrow> (exn \<Rightarrow> 'a io) \<Rightarrow> 'a io" where
  "io_try m h =
     (case m of
        (Inl e, t) \<Rightarrow> (case h e of (r, t') \<Rightarrow> (r, t @ t'))
      | (Inr x, t) \<Rightarrow> (Inr x, t))"

definition fs_op :: "fs_call \<Rightarrow> exn + 'a \<Rightarrow> 'a io" where
  "fs_op c r = (r, [c])"

definition path_exists :: "fsnode \<Rightarrow> path \<Rightarrow> bool io" where
  "path_exists fs p =
     fs_op (Exists p)
       (Inr (case fs_lookup fs p of
               None \<Rightarrow> False
             | Some Inaccessible \<Rightarrow> False
             | Some n \<Rightarrow> True))"

definition path_is_dir :: "fsnode \<Rightarrow> path \<Rightarrow> bool io" where
  "path_is_dir fs p =
     fs_op (IsDir p)
       (Inr (case fs_lookup fs p of
               Some (Dir st ch) \<Rightarrow> True
             | other \<Rightarrow> False))"

definition path_is_file :: "fsnode \<Rightarrow> path \<Rightarrow> bool io" where
  "path_is_file fs p =
     fs_op (IsFile p)
       (Inr (case fs_lookup fs p of
               Some (File st d r) \<Rightarrow> True
             | other \<Rightarrow> False))"

definition no_such_file :: "path \<Rightarrow> exn" where
  "no_such_file p =
     Exn FileNotFoundError (''[Errno 2] No such file or directory: '' @ path_str p)"

definition permission_denied :: "path \<Rightarrow> exn" where
  "permission_denied p = Exn PermissionError (''[Errno 13] Permission denied: '' @ path_str p)"

definition path_stat :: "fsnode \<Rightarrow> path \<Rightarrow> stat_result io" where
  "path_stat fs p =
     fs_op (Stat p)
       (case fs_lookup fs p of
          None \<Rightarrow> Inl (no_such_file p)
        | Some (File st d r) \<Rightarrow> Inr st
        | Some (Dir st ch) \<Rightarrow> Inr st
        | Some (Special st) \<Rightarrow> Inr st
        | Some Inaccessible \<Rightarrow> Inl (permission_denied p))"

definition path_iterdir :: "fsnode \<Rightarrow> path \<Rightarrow> path list io" where
  "path_iterdir fs p =
     fs_op (Iterdir p)
       (case fs_lookup fs p of
          None \<Rightarrow> Inl (no_such_file p)
        | Some (Dir st ch) \<Rightarrow> Inr (map (\<lambda>(n, c). p @ [n]) ch)
        | Some Inaccessible \<Rightarrow> Inl (permission_denied p)
        | Some other \<Rightarrow>
            Inl (Exn NotADirectoryError (''[Errno 20] Not a directory: '' @ path_str p)))"

text \<open>
  \<^verbatim>\<open>Path.glob(pat)\<close> with a one-component pattern: the children whose names match.
  \<^verbatim>\<open>Path.rglob(pat)\<close>: the same at every depth, a directory's own matches before those
  of its subdirectories.
\<close>

definition glob_children :: "string \<Rightarrow> path \<Rightarrow> (string \<times> fsnode) list \<Rightarrow> path list" where
  "glob_children pat p ch = map (\<lambda>(n, c). p @ [n]) (filter (\<lambda>(n, c). fnmatch n pat) ch)"

fun rglob_node :: "string \<Rightarrow> path \<Rightarrow> fsnode \<Rightarrow> path list" where
  "rglob_node pat p (Dir st ch) =
     glob_children pat p ch @ concat (map (\<lambda>(n, c). rglob_node pat (p @ [n]) c) ch)"
| "rglob_node pat p other = []"

definition path_glob :: "fsnode \<Rightarrow> path \<Rightarrow> string \<Rightarrow> path list io" where
  "path_glob fs p pat =
     fs_op (Glob p pat)
       (Inr (case fs_lookup fs p of
               Some (Dir st ch) \<Rightarrow> glob_children pat p ch
             | other \<Rightarrow> []))"

definition path_rglob :: "fsnode \<Rightarrow> path \<Rightarrow> string \<Rightarrow> path list io" where
  "path_rglob fs p pat =
     fs_op (RGlob p pat)
       (Inr (case fs_lookup fs p of
               Some n \<Rightarrow> rglob_node pat p n
             | None \<Rightarrow> []))"

subsection \<open>Decoding and encoding\<close>

text \<open>
  Decoding UTF-8 with \<^verbatim>\<open>errors="ignore"\<close> drops every byte that is not part of a
  well-formed sequence and raises nothing. On the UTF-8 representation of the result
  this keeps the well-formed sequences as they are.
\<close>

definition is_cont :: "char \<Rightarrow> bool" where
  "is_cont c = (0x80 \<le> (of_char c :: nat) \<and> (of_char c :: nat) \<le> 0xBF)"

definition in_range :: "nat \<Rightarrow> nat \<Rightarrow> char \<Rightarrow> bool" where
  "in_range lo hi c = (lo \<le> (of_char c :: nat) \<and> (of_char c :: nat) \<le> hi)"

fun utf8_wellformed :: "bytes \<Rightarrow> bool" where
  "utf8_wellformed [a] = in_range 0x00 0x7F a"
| "utf8_wellformed [a, b] = (in_range 0xC2 0xDF a \<and> is_cont b)"
| "utf8_wellformed [a, b, c] =
     (((in_range 0xE0 0xE0 a \<and> in_range 0xA0 0xBF b)
       \<or> (in_range 0xE1 0xEC a \<and> is_cont b)
       \<or> (in_range 0xED 0xED a \<and> in_range 0x80 0x9F b)
       \<or> (in_range 0xEE 0xEF a \<and> is_cont b)) \<and> is_cont c)"
| "utf8_wellformed [a, b, c, d] =
     (((in_range 0xF0 0xF0 a \<and> in_range 0x90 0xBF b)
       \<or> (in_range 0xF1 0xF3 a \<and> is_cont b)
       \<or> (in_range 0xF4 0xF4 a \<and> in_range 0x80 0x8F b)) \<and> is_cont c \<and> is_cont d)"
| "utf8_wellformed other = False"

definition utf8_len :: "char \<Rightarrow> nat" where
  "utf8_len a =
     (if in_range 0xC2 0xDF a then 2
      else if in_range 0xE0 0xEF a then 3
      else if in_range 0xF0 0xF4 a then 4
      else 1)"

fun utf8_ignore :: "bytes \<Rightarrow> string" where
  "utf8_ignore [] = []"
| "utf8_ignore (a # bs) =
     (let k = utf8_len a - 1
      in if utf8_wellformed (a # take k bs)
         then a # take k bs @ utf8_ignore (drop k bs)
         else utf8_ignore bs)"

text \<open>Latin-1 maps every byte to the code point of the same number.\<close>

definition latin1_char :: "char \<Rightarrow> string" where
  "latin1_char c =
     (let n = (of_char c :: nat)
      in if n < 0x80 then [c] else [char_of (0xC0 + n div 64), char_of (0x80 + n mod 64)])"

definition latin1_decode :: "bytes \<Rightarrow> string" where
  "latin1_decode bs = concat (map latin1_char bs)"

definition decode_ignore :: "string \<Rightarrow> bytes \<Rightarrow> string" where
  "decode_ignore encoding bs =
     (if encoding = ''latin-1'' then latin1_decode bs else utf8_ignore bs)"

text \<open>Text mode translates \<^verbatim>\<open>\r\n\<close> and \<^verbatim>\<open>\r\<close> to \<^verbatim>\<open>\n\<close>.\<close>

fun universal_newlines :: "string \<Rightarrow> string" where
  "universal_newlines [] = []"
| "universal_newlines [c] = (if c = CHR 0x0D then [CHR 0x0A] else [c])"
| "universal_newlines (c # d # cs) =
     (if c = CHR 0x0D \<and> d = CHR 0x0A then CHR 0x0A # universal_newlines cs
      else if c = CHR 0x0D then CHR 0x0A # universal_newlines (d # cs)
      else c # universal_newlines (d # cs))"

text \<open>\<^verbatim>\<open>readlines\<close>: the lines of a text, each with its newline.\<close>

fun readlines :: "string \<Rightarrow> string list" where
  "readlines [] = []"
| "readlines (c # cs) =
     (if c = CHR 0x0A then [c] # readlines cs
      else (case readlines cs of
              [] \<Rightarrow> [[c]]
            | l # ls \<Rightarrow> (c # l) # ls))"

text \<open>
  \<^verbatim>\<open>open(p, "r", encoding=..., errors="ignore")\<close> followed by reading the lines, and
  \<^verbatim>\<open>open(p, "rb")\<close> followed by \<^verbatim>\<open>read()\<close>.
\<close>

definition open_result :: "fsnode \<Rightarrow> path \<Rightarrow> exn + bytes" where
  "open_result fs p =
     (case fs_lookup fs p of
        None \<Rightarrow> Inl (no_such_file p)
      | Some (File st d r) \<Rightarrow> if r then Inr d else Inl (permission_denied p)
      | Some (Dir st ch) \<Rightarrow>
          Inl (Exn IsADirectoryError (''[Errno 21] Is a directory: '' @ path_str p))
      | Some other \<Rightarrow> Inl (permission_denied p))"

definition read_text_lines :: "fsnode \<Rightarrow> path \<Rightarrow> string \<Rightarrow> string list io" where
  "read_text_lines fs p encoding =
     fs_op (OpenText p encoding)
       (case open_result fs p of
          Inl e \<Rightarrow> Inl e
        | Inr d \<Rightarrow> Inr (readlines (universal_newlines (decode_ignore encoding d))))"

definition read_bytes :: "fsnode \<Rightarrow> path \<Rightarrow> bytes io" where
  "read_bytes fs p = fs_op (OpenBinary p) (open_result fs p)"

text \<open>Base64 with the standard alphabet and \<^verbatim>\<open>=\<close> padding (\<^verbatim>\<open>base64.b64encode\<close>).\<close>

definition b64_alphabet :: string where
  "b64_alphabet = ''ABCDEFGHIJKLMNOPQRSTUVWXYZabcdefghijklmnopqrstuvwxyz0123456789+/''"

definition b64_char :: "nat \<Rightarrow> char" where
  "b64_char i = b64_alphabet ! (i mod 64)"

text \<open>
  Three bytes make four digits of six bits; one or two bytes at the end make two or
  three digits, filled with zero bits, and the padding.
\<close>

fun b64encode :: "bytes \<Rightarrow> string" where
  "b64encode [] = []"
| "b64encode [a] =
     (let x = (of_char a :: nat)
      in [b64_char (x div 4), b64_char (x mod 4 * 16), CHR ''='', CHR ''=''])"
| "b64encode [a, b] =
     (let x = (of_char a :: nat); y = (of_char b :: nat)
      in [b64_char (x div 4), b64_char (x mod 4 * 16 + y div 16), b64_char (y mod 16 * 4),
          CHR ''=''])"
| "b64encode (a # b # c # rest) =
     (let x = (of_char a :: nat); y = (of_char b :: nat); z = (of_char c :: nat)
      in [b64_char (x div 4), b64_char (x mod 4 * 16 + y div 16),
          b64_char (y mod 16 * 4 + z div 64), b64_char (z mod 64)] @ b64encode rest)"

text \<open>The inverse (\<^verbatim>\<open>base64.b64decode\<close>), \<open>None\<close> where it raises.\<close>

definition b64_index :: "char \<Rightarrow> nat option" where
  "b64_index c =
     (if c \<in> set b64_alphabet
      then Some (length (takeWhile (\<lambda>x. x \<noteq> c) b64_alphabet)) else None)"

fun b64decode :: "string \<Rightarrow> bytes option" where
  "b64decode [] = Some []"
| "b64decode (w # x # y # z # rest) =
     (case (b64_index w, b64_index x) of
        (Some i, Some j) \<Rightarrow>
          (if y = CHR ''='' \<and> z = CHR ''='' \<and> rest = []
           then Some [char_of (i * 4 + j div 16)]
           else (case b64_index y of
                   None \<Rightarrow> None
                 | Some k \<Rightarrow>
                     (if z = CHR ''='' \<and> rest = []
                      then Some [char_of (i * 4 + j div 16), char_of (j mod 16 * 16 + k div 4)]
                      else (case (b64_index z, b64decode rest) of
                              (Some l, Some bs) \<Rightarrow>
                                Some (char_of (i * 4 + j div 16)
                                      # char_of (j mod 16 * 16 + k div 4)
                                      # char_of (k mod 4 * 64 + l) # bs)
                            | other \<Rightarrow> None))))
      | other \<Rightarrow> None)"
| "b64decode other = None"

subsection \<open>Environment and results\<close>

text \<open>
  What the module takes from outside: the project root of \<^verbatim>\<open>get_project_root()\<close>, the
  table behind \<^verbatim>\<open>mimetypes.guess_type\<close>, the rendering
  \<^verbatim>\<open>datetime.fromtimestamp(t).isoformat()\<close> and the reading of \<^verbatim>\<open>datetime.now()\<close>.
\<close>

record env =
  project_root :: path
  guess_type :: "string \<Rightarrow> string option"
  isoformat :: "int \<Rightarrow> string"
  now :: string

text \<open>The dictionaries that the tools serialise, one record each, a field per key.\<close>

record file_info =
  fi_name :: string
  fi_path :: string
  fi_relative_path :: string
  fi_type :: string
  fi_size :: "nat option"
  fi_modified_time :: "string option"
  fi_mime_type :: "string option"
  fi_extension :: "string option"
  fi_line_count :: "nat option"

record error_result =
  er_success :: bool
  er_error :: string
  er_error_type :: string
  er_timestamp :: string

record list_result =
  lr_success :: bool
  lr_action :: string
  lr_path :: string
  lr_relative_path :: string
  lr_files :: "file_info list"
  lr_subdirectories :: "string list"
  lr_total_files :: nat
  lr_total_directories :: nat
  lr_timestamp :: string

record read_result =
  rr_success :: bool
  rr_action :: string
  rr_path :: string
  rr_relative_path :: string
  rr_content :: string
  rr_encoding :: string
  rr_line_count :: nat
  rr_size :: nat
  rr_mime_type :: string
  rr_is_text :: bool
  rr_timestamp :: string

record search_result =
  sr_success :: bool
  sr_action :: string
  sr_search_term :: string
  sr_path :: string
  sr_files :: "file_info list"
  sr_total_matches :: nat
  sr_max_results :: int
  sr_recursive :: bool
  sr_timestamp :: string

record info_result =
  ir_success :: bool
  ir_action :: string
  ir_path :: string
  ir_relative_path :: string
  ir_name :: string
  ir_type :: string
  ir_size :: "nat option"
  ir_modified_time :: string
  ir_mime_type :: "string option"
  ir_extension :: "string option"
  ir_line_count :: "nat option"
  ir_timestamp :: string

text \<open>
  The handler \<^verbatim>\<open>except Exception as e\<close> that closes each tool: the exception becomes the
  failure dictionary, a result passes through.
\<close>

definition error_envelope :: "env \<Rightarrow> exn \<Rightarrow> error_result" where
  "error_envelope env e =
     \<lparr>er_success = False,
      er_error = exn_msg e,
      er_error_type = class_name (exn_class e),
      er_timestamp = now env\<rparr>"

definition catch_all :: "env \<Rightarrow> 'a io \<Rightarrow> (error_result + 'a) \<times> fs_call list" where
  "catch_all env m =
     (case m of
        (Inl e, t) \<Rightarrow> (Inl (error_envelope env e), t)
      | (Inr r, t) \<Rightarrow> (Inr r, t))"

subsection \<open>Path confinement\<close>

text \<open>
  Modelled from the spec: \<^verbatim>\<open>get_safe_path\<close> is imported from \<^verbatim>\<open>config.py\<close>, which is not
  among the sources. Section 4.1 of the specification: empty input resolves to the
  project root; relative input is joined to the root and normalised; absolute input is
  normalised directly; a normalised result that is neither the root nor below it fails
  with AccessDenied; no file-system call precedes this check. Normalisation resolves
  the \<^verbatim>\<open>.\<close> and \<^verbatim>\<open>..\<close> segments; the tree has no links.
\<close>

fun normalize_parts :: "path \<Rightarrow> string list \<Rightarrow> path" where
  "normalize_parts acc [] = acc"
| "normalize_parts acc (s # ss) =
     (if s = [] \<or> s = ''.'' then normalize_parts acc ss
      else if s = ''..'' then normalize_parts (butlast acc) ss
      else normalize_parts (acc @ [s]) ss)"

text \<open>
  Modelled from the spec: the normalised location of a caller-supplied path (empty,
  absolute or relative to the project root), which \<^verbatim>\<open>config.py\<close> computes.
\<close>

definition resolve :: "env \<Rightarrow> string \<Rightarrow> path" where
  "resolve env p =
     (if p = [] then project_root env
      else if hd p = CHR ''/'' then normalize_parts [] (split_on (CHR ''/'') p)
      else normalize_parts (project_root env) (split_on (CHR ''/'') p))"

text \<open>
  Modelled from the spec: \<^verbatim>\<open>get_safe_path\<close> of \<^verbatim>\<open>config.py\<close>. The class and the message of
  the exception are not in the specification beyond the name of the condition,
  AccessDenied.
\<close>

definition get_safe_path :: "env \<Rightarrow> string \<Rightarrow> path io" where
  "get_safe_path env p =
     (let target = resolve env p
      in if prefix (project_root env) target then io_return target
         else io_raise (Exn AccessDenied (''Access denied: path is outside project root: '' @ p)))"

subsection \<open>Classification\<close>

text \<open>The test on the guessed MIME type, the same text in \<^verbatim>\<open>read_file\<close> and \<^verbatim>\<open>get_file_info\<close>.\<close>

definition is_text_mime :: "string option \<Rightarrow> bool" where
  "is_text_mime mime_type =
     (case mime_type of
        None \<Rightarrow> False
      | Some m \<Rightarrow>
          m \<noteq> [] \<and>
          (startswith m ''text/'' \<or>
           m \<in> set [''application/json'', ''application/xml'', ''application/javascript'',
                    ''application/x-python'', ''application/x-c++src'']))"

definition text_extensions :: "string list" where
  "text_extensions =
    [''.txt'', ''.md'', ''.markdown'', ''.py'', ''.cpp'', ''.h'', ''.hpp'', ''.c'',
     ''.cc'', ''.java'', ''.cs'', ''.go'', ''.rs'', ''.js'', ''.ts'', ''.jsx'', ''.tsx'',
     ''.html'', ''.htm'', ''.css'', ''.scss'', ''.less'', ''.xml'', ''.json'', ''.yaml'',
     ''.yml'', ''.toml'', ''.ini'', ''.cfg'', ''.conf'', ''.php'', ''.rb'', ''.pl'',
     ''.pm'', ''.lua'', ''.sql'', ''.sh'', ''.bash'', ''.bat'', ''.cmd'', ''.ps1'',
     ''.asm'', ''.s'', ''.v'', ''.sv'', ''.vhd'', ''.vhdl'', ''.tex'', ''.rst'', ''.log'',
     ''.csv'', ''.tsv'', ''.proto'', ''.thrift'', ''.gradle'', ''.m'', ''.mm'', ''.swift'',
     ''.kt'', ''.kts'', ''.dart'', ''.elm'', ''.erl'', ''.ex'', ''.exs'', ''.fs'',
     ''.fsx'', ''.fsi'', ''.hs'', ''.lhs'', ''.ml'', ''.mli'', ''.nim'', ''.pas'', ''.pp'',
     ''.r'', ''.rmd'', ''.scala'', ''.vb'', ''.vbs'', ''.zig'', ''.uproject'',
     ''.uplugin'', ''.Build.cs'', ''.Target.cs'']"

text \<open>
  \<^verbatim>\<open>any(ext.lower() in file_ext for ext in file_extensions)\<close>, applied only when the
  optional list is given and not empty.
\<close>

definition matches_extensions :: "string list \<Rightarrow> string \<Rightarrow> bool" where
  "matches_extensions file_extensions file_ext =
     list_ex (\<lambda>ext. is_substring (str_lower ext) file_ext) file_extensions"

definition extension_filter :: "string list option \<Rightarrow> string \<Rightarrow> bool" where
  "extension_filter file_extensions file_ext =
     (case file_extensions of
        None \<Rightarrow> True
      | Some es \<Rightarrow> es = [] \<or> matches_extensions es file_ext)"

definition relative_or_absolute :: "env \<Rightarrow> path \<Rightarrow> string" where
  "relative_or_absolute env p =
     (case relative_to p (project_root env) of Some r \<Rightarrow> r | None \<Rightarrow> path_str p)"

subsection \<open>\<^verbatim>\<open>list_directory\<close>\<close>

text \<open>
  One round of the loop over \<^verbatim>\<open>safe_path.iterdir()\<close>, on the pair of the lists \<^verbatim>\<open>files\<close>
  and \<^verbatim>\<open>subdirectories\<close>. The dictionary display asks \<^verbatim>\<open>item.is_dir()\<close> four more times.
\<close>

definition list_item ::
  "env \<Rightarrow> fsnode \<Rightarrow> string list option \<Rightarrow> path \<Rightarrow> file_info list \<times> string list
   \<Rightarrow> (file_info list \<times> string list) io" where
  "list_item env fs file_extensions item acc =
     io_bind (path_is_dir fs item) (\<lambda>is_dir.
       if is_dir then io_return (fst acc, snd acc @ [path_name item])
       else if \<not> extension_filter file_extensions (str_lower (path_suffix item))
       then io_return acc
       else
         io_bind (path_stat fs item) (\<lambda>stat_info.
         io_bind (path_is_dir fs item) (\<lambda>d1.
         io_bind (path_is_dir fs item) (\<lambda>d2.
         io_bind (path_is_dir fs item) (\<lambda>d3.
         io_bind (path_is_dir fs item) (\<lambda>d4.
           io_return
             (fst acc @
                [\<lparr>fi_name = path_name item,
                  fi_path = path_str item,
                  fi_relative_path =
                    (if in_parents (project_root env) item then relative_or_absolute env item
                     else path_str item),
                  fi_type = (if d1 then ''directory'' else ''file''),
                  fi_size = (if \<not> d2 then Some (st_size stat_info) else None),
                  fi_modified_time =
                    (if \<not> d3 then Some (isoformat env (st_mtime stat_info)) else None),
                  fi_mime_type = guess_type env (path_str item),
                  fi_extension = (if \<not> d4 then Some (str_lower (path_suffix item)) else None),
                  fi_line_count = None\<rparr>],
              snd acc)))))))"

fun list_loop ::
  "env \<Rightarrow> fsnode \<Rightarrow> string list option \<Rightarrow> path list \<Rightarrow> file_info list \<times> string list
   \<Rightarrow> (file_info list \<times> string list) io" where
  "list_loop env fs file_extensions [] acc = io_return acc"
| "list_loop env fs file_extensions (item # items) acc =
     io_bind
       (io_try (list_item env fs file_extensions item acc)
          (\<lambda>e. if is_OSError (exn_class e) then io_return acc else io_raise e))
       (\<lambda>acc'. list_loop env fs file_extensions items acc')"

definition list_directory_body ::
  "env \<Rightarrow> fsnode \<Rightarrow> string \<Rightarrow> string list option \<Rightarrow> list_result io" where
  "list_directory_body env fs p file_extensions =
     io_bind (get_safe_path env p) (\<lambda>safe_path.
     io_bind (path_exists fs safe_path) (\<lambda>ex.
       if \<not> ex
       then io_raise (Exn FileNotFoundError (''Path not found: '' @ path_str safe_path))
       else
     io_bind (path_is_dir fs safe_path) (\<lambda>is_dir.
       if \<not> is_dir
       then io_raise
              (Exn NotADirectoryError (''Path is not a directory: '' @ path_str safe_path))
       else
     io_bind (path_iterdir fs safe_path) (\<lambda>items.
     io_bind (list_loop env fs file_extensions items ([], [])) (\<lambda>acc.
       let files = sort_key fi_name (fst acc);
           subdirectories = sort (snd acc)
       in io_return
            \<lparr>lr_success = True,
             lr_action = ''list'',
             lr_path = path_str safe_path,
             lr_relative_path = relative_or_absolute env safe_path,
             lr_files = files,
             lr_subdirectories = subdirectories,
             lr_total_files = length files,
             lr_total_directories = length subdirectories,
             lr_timestamp = now env\<rparr>)))))"

definition list_directory ::
  "env \<Rightarrow> fsnode \<Rightarrow> string \<Rightarrow> string list option
   \<Rightarrow> (error_result + list_result) \<times> fs_call list" where
  "list_directory env fs p file_extensions =
     catch_all env (list_directory_body env fs p file_extensions)"

subsection \<open>\<^verbatim>\<open>read_file\<close>\<close>

definition MAX_FILE_SIZE :: nat where
  "MAX_FILE_SIZE = 10 * 1024 * 1024"

text \<open>
  The text branch yields \<^verbatim>\<open>(content, line_count, is_text)\<close>: the handler of
  \<^verbatim>\<open>UnicodeDecodeError\<close> retries in Latin-1, and the handler there clears \<^verbatim>\<open>is_text\<close>.
\<close>

definition read_text :: "fsnode \<Rightarrow> path \<Rightarrow> (string \<times> nat \<times> bool) io" where
  "read_text fs safe_path =
     io_try
       (io_bind (read_text_lines fs safe_path ''utf-8'') (\<lambda>lines.
          io_return (concat lines, length lines, True)))
       (\<lambda>e. if exn_class e = UnicodeDecodeError
            then io_try
                   (io_bind (read_text_lines fs safe_path ''latin-1'') (\<lambda>lines.
                      io_return (concat lines, length lines, True)))
                   (\<lambda>e'. io_return ([], 0, False))
            else io_raise e)"

definition read_file_body :: "env \<Rightarrow> fsnode \<Rightarrow> string \<Rightarrow> read_result io" where
  "read_file_body env fs p =
     io_bind (get_safe_path env p) (\<lambda>safe_path.
     io_bind (path_exists fs safe_path) (\<lambda>ex.
       if \<not> ex
       then io_raise (Exn FileNotFoundError (''File not found: '' @ path_str safe_path))
       else
     io_bind (path_is_file fs safe_path) (\<lambda>is_file.
       if \<not> is_file
       then io_raise (Exn ValueError (''Path is not a file: '' @ path_str safe_path))
       else
     io_bind (path_stat fs safe_path) (\<lambda>st.
       let file_size = st_size st
       in if file_size > MAX_FILE_SIZE
          then io_raise
                 (Exn ValueError
                    (''File too large ('' @ str_of_nat file_size
                     @ '' bytes). Maximum size is '' @ str_of_nat MAX_FILE_SIZE @ '' bytes.''))
          else
     io_bind (path_stat fs safe_path) (\<lambda>stat_info.
       let mime_type = guess_type env (path_str safe_path);
           relative_path = relative_or_absolute env safe_path;
           is_text0 = (is_text_mime mime_type
                       \<or> str_lower (path_suffix safe_path) \<in> set text_extensions)
       in
     io_bind (if is_text0 then read_text fs safe_path else io_return ([], 0, False))
       (\<lambda>(content0, line_count0, is_text).
     io_bind
       (if \<not> is_text
        then io_bind (read_bytes fs safe_path) (\<lambda>binary_data.
               io_return (b64encode binary_data, ''base64'', 0))
        else io_return (content0, ''text'', line_count0))
       (\<lambda>(content, content_encoding, line_count).
       io_return
         \<lparr>rr_success = True,
          rr_action = ''read'',
          rr_path = path_str safe_path,
          rr_relative_path = relative_path,
          rr_content = content,
          rr_encoding = content_encoding,
          rr_line_count = line_count,
          rr_size = file_size,
          rr_mime_type = (case mime_type of None \<Rightarrow> ''application/octet-stream''
                          | Some m \<Rightarrow> if m = [] then ''application/octet-stream'' else m),
          rr_is_text = is_text,
          rr_timestamp = now env\<rparr>)))))))"

definition read_file ::
  "env \<Rightarrow> fsnode \<Rightarrow> string \<Rightarrow> (error_result + read_result) \<times> fs_call list" where
  "read_file env fs p = catch_all env (read_file_body env fs p)"

subsection \<open>\<^verbatim>\<open>search_files\<close>\<close>

text \<open>A comprehension whose condition asks the file system.\<close>

fun io_filter :: "('a \<Rightarrow> bool io) \<Rightarrow> 'a list \<Rightarrow> 'a list io" where
  "io_filter f [] = io_return []"
| "io_filter f (x # xs) =
     io_bind (f x) (\<lambda>b.
     io_bind (io_filter f xs) (\<lambda>ys.
       io_return (if b then x # ys else ys)))"

definition search_entry :: "env \<Rightarrow> path \<Rightarrow> stat_result \<Rightarrow> file_info" where
  "search_entry env file_path stat_info =
     \<lparr>fi_name = path_name file_path,
      fi_path = path_str file_path,
      fi_relative_path = relative_or_absolute env file_path,
      fi_type = ''file'',
      fi_size = Some (st_size stat_info),
      fi_modified_time = Some (isoformat env (st_mtime stat_info)),
      fi_mime_type = guess_type env (path_str file_path),
      fi_extension = Some (str_lower (path_suffix file_path)),
      fi_line_count = None\<rparr>"

text \<open>
  The loop over \<^verbatim>\<open>files_to_search\<close>: a match is appended, and then the length of
  \<^verbatim>\<open>matches\<close> is compared with \<^verbatim>\<open>max_results\<close>, which ends the loop.
\<close>

fun search_loop ::
  "env \<Rightarrow> fsnode \<Rightarrow> string \<Rightarrow> int \<Rightarrow> path list \<Rightarrow> file_info list \<Rightarrow> file_info list io" where
  "search_loop env fs search_term_lower max_results [] matches = io_return matches"
| "search_loop env fs search_term_lower max_results (file_path # rest) matches =
     io_bind
       (if is_substring search_term_lower (str_lower (path_name file_path))
        then io_bind (path_stat fs file_path) (\<lambda>stat_info.
               io_return (matches @ [search_entry env file_path stat_info]))
        else io_return matches)
       (\<lambda>matches'.
          if int (length matches') \<ge> max_results then io_return matches'
          else search_loop env fs search_term_lower max_results rest matches')"

text \<open>
  \<^verbatim>\<open>matches.sort(key=lambda x: x["modified_time"] or "", reverse=True)\<close>: a stable sort
  with every comparison reversed, that is, the stable ascending sort of the reversed
  list, reversed.
\<close>

definition modified_key :: "file_info \<Rightarrow> string" where
  "modified_key x = (case fi_modified_time x of None \<Rightarrow> [] | Some t \<Rightarrow> t)"

definition sort_matches :: "file_info list \<Rightarrow> file_info list" where
  "sort_matches matches = rev (sort_key modified_key (rev matches))"

text \<open>
  The candidates: the path itself when it is a file, else what the pattern \<^verbatim>\<open>*.*\<close> finds
  in the directory or in the whole subtree. Then the two comprehensions: the regular
  files among them, and those that pass the extension filter.
\<close>

definition search_candidates :: "fsnode \<Rightarrow> path \<Rightarrow> bool \<Rightarrow> path list io" where
  "search_candidates fs safe_path recursive =
     io_bind (path_is_file fs safe_path) (\<lambda>is_file.
       if is_file then io_return [safe_path]
       else if recursive then path_rglob fs safe_path ''*.*''
       else path_glob fs safe_path ''*.*'')"

definition files_to_search ::
  "fsnode \<Rightarrow> path \<Rightarrow> string list option \<Rightarrow> bool \<Rightarrow> path list io" where
  "files_to_search fs safe_path file_extensions recursive =
     io_bind (search_candidates fs safe_path recursive) (\<lambda>found.
     io_bind (io_filter (path_is_file fs) found) (\<lambda>regular.
       io_return
         (filter (\<lambda>f. extension_filter file_extensions (str_lower (path_suffix f))) regular)))"

definition search_files_body ::
  "env \<Rightarrow> fsnode \<Rightarrow> string \<Rightarrow> string \<Rightarrow> string list option \<Rightarrow> bool \<Rightarrow> int
   \<Rightarrow> search_result io" where
  "search_files_body env fs p search_term file_extensions recursive max_results =
     (if search_term = [] then io_raise (Exn ValueError ''Search term is required'')
      else
     io_bind (get_safe_path env p) (\<lambda>safe_path.
     io_bind (path_exists fs safe_path) (\<lambda>ex.
       if \<not> ex
       then io_raise (Exn FileNotFoundError (''Path not found: '' @ path_str safe_path))
       else
     io_bind (files_to_search fs safe_path file_extensions recursive) (\<lambda>files.
     io_bind (search_loop env fs (str_lower search_term) max_results files [])
       (\<lambda>matches0.
       let matches = sort_matches matches0
       in io_return
            \<lparr>sr_success = True,
             sr_action = ''search'',
             sr_search_term = search_term,
             sr_path = path_str safe_path,
             sr_files = matches,
             sr_total_matches = length matches,
             sr_max_results = max_results,
             sr_recursive = recursive,
             sr_timestamp = now env\<rparr>)))))"

definition search_files ::
  "env \<Rightarrow> fsnode \<Rightarrow> string \<Rightarrow> string \<Rightarrow> string list option \<Rightarrow> bool \<Rightarrow> int
   \<Rightarrow> (error_result + search_result) \<times> fs_call list" where
  "search_files env fs p search_term file_extensions recursive max_results =
     catch_all env
       (search_files_body env fs p search_term file_extensions recursive max_results)"

subsection \<open>\<^verbatim>\<open>get_file_info\<close>\<close>

text \<open>
  The line count: attempted for a regular file whose MIME type is textual, with
  \<^verbatim>\<open>except Exception\<close> around the reading.
\<close>

definition count_lines :: "fsnode \<Rightarrow> path \<Rightarrow> nat option io" where
  "count_lines fs safe_path =
     io_try
       (io_bind (read_text_lines fs safe_path ''utf-8'') (\<lambda>lines.
          io_return (Some (length lines))))
       (\<lambda>e. io_return None)"

definition get_file_info_body :: "env \<Rightarrow> fsnode \<Rightarrow> string \<Rightarrow> info_result io" where
  "get_file_info_body env fs p =
     io_bind (get_safe_path env p) (\<lambda>safe_path.
     io_bind (path_exists fs safe_path) (\<lambda>ex.
       if \<not> ex
       then io_raise (Exn FileNotFoundError (''Path not found: '' @ path_str safe_path))
       else
     io_bind (path_stat fs safe_path) (\<lambda>stat_info.
       let mime_type = guess_type env (path_str safe_path);
           relative_path = relative_or_absolute env safe_path
       in
     io_bind (path_is_file fs safe_path) (\<lambda>is_file.
     io_bind
       (if is_file \<and> is_text_mime mime_type then count_lines fs safe_path
        else io_return None)
       (\<lambda>line_count.
     io_bind (path_is_dir fs safe_path) (\<lambda>d.
     io_bind (path_is_file fs safe_path) (\<lambda>f1.
     io_bind (path_is_file fs safe_path) (\<lambda>f2.
       io_return
         \<lparr>ir_success = True,
          ir_action = ''info'',
          ir_path = path_str safe_path,
          ir_relative_path = relative_path,
          ir_name = path_name safe_path,
          ir_type = (if d then ''directory'' else ''file''),
          ir_size = (if f1 then Some (st_size stat_info) else None),
          ir_modified_time = isoformat env (st_mtime stat_info),
          ir_mime_type = mime_type,
          ir_extension = (if f2 then Some (str_lower (path_suffix safe_path)) else None),
          ir_line_count = line_count,
          ir_timestamp = now env\<rparr>))))))))"

definition get_file_info ::
  "env \<Rightarrow> fsnode \<Rightarrow> string \<Rightarrow> (error_result + info_result) \<times> fs_call list" where
  "get_file_info env fs p = catch_all env (get_file_info_body env fs p)"

subsection \<open>A concrete project\<close>

text \<open>
  A small tree to evaluate the tools on: the project \<^verbatim>\<open>/home/proj\<close> next to \<^verbatim>\<open>/etc\<close>.
\<close>

definition example_guess_type :: "string \<Rightarrow> string option" where
  "example_guess_type s =
     (if suffix ''.txt'' s then Some ''text/plain''
      else if suffix ''.json'' s then Some ''application/json''
      else if suffix ''.png'' s then Some ''image/png''
      else None)"

definition example_isoformat :: "int \<Rightarrow> string" where
  "example_isoformat t =
     ''1970-01-01T00:00:'' @ (if t < 10 then ''0'' else []) @ str_of_nat (nat t)"

definition example_env :: env where
  "example_env =
     \<lparr>project_root = [''home'', ''proj''],
      guess_type = example_guess_type,
      isoformat = example_isoformat,
      now = ''2024-05-01T12:00:00''\<rparr>"

definition st :: "nat \<Rightarrow> int \<Rightarrow> stat_result" where
  "st n t = \<lparr>st_size = n, st_mtime = t\<rparr>"

definition example_children :: "(string \<times> fsnode) list" where
  "example_children =
       [(''b.txt'', File (st 3 7) ''b1'' True),
        (''a.txt'', File (st 11 5) (''hello'' @ [CHR 0x0A] @ ''world'') True),
        (''sub'', Dir (st 4096 8) [(''ab.md'', File (st 2 30) ''# '' True)]),
        (''Makefile'', File (st 4 6) ''all:'' True),
        (''bad.txt'', File (st 2 4) [CHR 0xFF, CHR ''A''] True),
        (''logo.png'', File (st 3 3) [CHR 0x89, CHR ''P'', CHR 0x00] True),
        (''huge.txt'', File (st 10485761 2) ''x'' True),
        (''locked.txt'', File (st 5 1) ''12345'' False),
        (''main.py'', File (st 9 12) (''print(1)'' @ [CHR 0x0A]) True),
        (''ghost'', Inaccessible)]"

definition example_proj :: fsnode where
  "example_proj = Dir (st 4096 9) example_children"

definition example_fs :: fsnode where
  "example_fs =
     Dir (st 4096 0)
       [(''home'', Dir (st 4096 0) [(''proj'', example_proj)]),
        (''etc'', Dir (st 4096 0) [(''passwd'', File (st 5 0) ''root:'' True)])]"

text \<open>Two entries for the ordering step of the search, one of them without a timestamp.\<close>

definition example_timed :: file_info where
  "example_timed = search_entry example_env [''home'', ''proj'', ''a.txt''] (st 11 5)"

definition example_untimed :: file_info where
  "example_untimed = example_timed\<lparr>fi_name := ''u.txt'', fi_modified_time := None\<rparr>"

text \<open>
  Modelled from the spec: the failure dictionary of the AccessDenied condition, as the
  handler renders what \<open>get_safe_path\<close> raises.
\<close>

definition access_denied :: "env \<Rightarrow> string \<Rightarrow> error_result" where
  "access_denied env p =
     \<lparr>er_success = False,
      er_error = ''Access denied: path is outside project root: '' @ p,
      er_error_type = ''AccessDenied'',
      er_timestamp = now env\<rparr>"



text \<open>What a computation returns, when it returns, satisfies \<open>P\<close>.\<close>

definition returns :: "('a \<Rightarrow> bool) \<Rightarrow> 'a io \<Rightarrow> bool" where
  "returns P m = (case fst m of Inl e \<Rightarrow> True | Inr x \<Rightarrow> P x)"

section \<open>Properties\<close>

subsection \<open>Running a computation\<close>

lemmas fs_defs =
  path_exists_def path_is_dir_def path_is_file_def path_stat_def path_iterdir_def
  path_glob_def path_rglob_def glob_children_def read_text_lines_def read_bytes_def
  open_result_def

lemmas ex_defs =
  example_env_def example_fs_def example_proj_def example_children_def example_guess_type_def
  example_isoformat_def st_def

lemma io_bind_return [simp]: "io_bind (io_return x) f = f x"
  by (simp add: io_bind_def io_return_def split: prod.splits)

lemma io_bind_raise [simp]: "io_bind (io_raise e) f = io_raise e"
  by (simp add: io_bind_def io_raise_def)

lemma io_bind_Inr [simp]:
  "io_bind (Inr x, t) f = (case f x of (r, t') \<Rightarrow> (r, t @ t'))"
  by (simp add: io_bind_def)

lemma io_bind_Inl [simp]: "io_bind (Inl e, t) f = (Inl e, t)"
  by (simp add: io_bind_def)

lemma io_try_Inr [simp]: "io_try (Inr x, t) h = (Inr x, t)"
  by (simp add: io_try_def)

lemma io_try_Inl [simp]: "io_try (Inl e, t) h = (case h e of (r, t') \<Rightarrow> (r, t @ t'))"
  by (simp add: io_try_def)

lemma catch_all_Inr [simp]: "catch_all env (Inr x, t) = (Inr x, t)"
  by (simp add: catch_all_def)

lemma catch_all_Inl [simp]: "catch_all env (Inl e, t) = (Inl (error_envelope env e), t)"
  by (simp add: catch_all_def)

lemma catch_all_raise [simp]: "catch_all env (io_raise e) = (Inl (error_envelope env e), [])"
  by (simp add: catch_all_def io_raise_def)

lemmas run_defs =
  fs_defs fs_op_def io_return_def io_raise_def Let_def path_name_def path_str_def
  path_suffix_def rfind_def str_lower_def char_lower_def in_parents_def
  relative_or_absolute_def relative_to_def no_such_file_def permission_denied_def
  get_safe_path_def resolve_def extension_filter_def matches_extensions_def
  error_envelope_def suffix_to_prefix search_candidates_def files_to_search_def
  search_entry_def sort_matches_def modified_key_def

lemma get_safe_path_outside:
  "\<not> prefix (project_root env) (resolve env p) \<Longrightarrow>
   get_safe_path env p =
     io_raise (Exn AccessDenied (''Access denied: path is outside project root: '' @ p))"
  by (simp add: get_safe_path_def)

lemma get_safe_path_inside:
  "prefix (project_root env) (resolve env p) \<Longrightarrow>
   get_safe_path env p = io_return (resolve env p)"
  by (simp add: get_safe_path_def)

lemma example_escape: "resolve example_env ''../../etc/passwd'' = [''etc'', ''passwd'']"
  by (simp add: resolve_def example_env_def)

lemma example_now: "now example_env = ''2024-05-01T12:00:00''"
  by (simp add: example_env_def)

lemma example_root: "project_root example_env = [''home'', ''proj'']"
  by (simp add: example_env_def)

subsection \<open>Path confinement comes first, except in the search\<close>

text \<open>
  Claim C9: a search with an empty search term fails with the invalid-argument error
  (\<^verbatim>\<open>ValueError\<close>, "Search term is required") before the path is confined: whatever the
  path, also one that escapes the project root, the result is this failure and not
  AccessDenied, and the file system has not been asked.
\<close>

theorem search_empty_term_precedes_confinement:
  "search_files env fs p [] file_extensions recursive max_results =
     (Inl \<lparr>er_success = False,
           er_error = ''Search term is required'',
           er_error_type = ''ValueError'',
           er_timestamp = now env\<rparr>, [])
   \<and> fst (search_files env fs p [] file_extensions recursive max_results)
       \<noteq> Inl (access_denied env p)"
  by (simp add: search_files_def search_files_body_def error_envelope_def access_denied_def)

theorem search_empty_term_precedes_confinement_witness:
  "\<not> prefix (project_root example_env) (resolve example_env ''../../etc/passwd'')
   \<and> search_files example_env example_fs ''../../etc/passwd'' [] None True 50 =
     (Inl \<lparr>er_success = False,
           er_error = ''Search term is required'',
           er_error_type = ''ValueError'',
           er_timestamp = ''2024-05-01T12:00:00''\<rparr>, [])"
  using search_empty_term_precedes_confinement
    [of example_env example_fs "''../../etc/passwd''" None True 50]
  by (simp add: example_escape example_now example_root)

text \<open>
  Claim C1, as amended: for every path that normalises outside the project root,
  \<^verbatim>\<open>list_directory\<close>, \<^verbatim>\<open>read_file\<close> and \<^verbatim>\<open>get_file_info\<close> return the failure envelope of
  AccessDenied and have made no file-system call; \<^verbatim>\<open>search_files\<close> does so whenever its
  search term is not empty.
\<close>

theorem confinement_precedes_access:
  assumes "\<not> prefix (project_root env) (resolve env p)"
  shows "list_directory env fs p file_extensions = (Inl (access_denied env p), [])
     \<and> read_file env fs p = (Inl (access_denied env p), [])
     \<and> get_file_info env fs p = (Inl (access_denied env p), [])
     \<and> (search_term \<noteq> [] \<longrightarrow>
          search_files env fs p search_term file_extensions recursive max_results =
            (Inl (access_denied env p), []))"
  using assms
  by (simp add: list_directory_def list_directory_body_def read_file_def read_file_body_def
      get_file_info_def get_file_info_body_def search_files_def search_files_body_def
      get_safe_path_outside error_envelope_def access_denied_def)

theorem confinement_precedes_access_witness:
  "\<not> prefix (project_root example_env) (resolve example_env ''../../etc/passwd'')
   \<and> list_directory example_env example_fs ''../../etc/passwd'' None =
       (Inl (access_denied example_env ''../../etc/passwd''), [])
   \<and> read_file example_env example_fs ''../../etc/passwd'' =
       (Inl (access_denied example_env ''../../etc/passwd''), [])
   \<and> get_file_info example_env example_fs ''../../etc/passwd'' =
       (Inl (access_denied example_env ''../../etc/passwd''), [])
   \<and> ''passwd'' \<noteq> []
   \<and> search_files example_env example_fs ''../../etc/passwd'' ''passwd'' None True 50 =
       (Inl (access_denied example_env ''../../etc/passwd''), [])
   \<and> er_error_type (access_denied example_env ''../../etc/passwd'') = ''AccessDenied''"
proof -
  have out: "\<not> prefix (project_root example_env) (resolve example_env ''../../etc/passwd'')"
    by (simp add: example_escape example_root)
  from confinement_precedes_access
         [OF out, of example_fs None "''passwd''" True 50] out
  show ?thesis
    by (simp add: access_denied_def)
qed

text \<open>
  Claim C1, as stated, fails at the search: with the (default) empty search term and the
  path \<^verbatim>\<open>../../etc/passwd\<close>, which normalises to \<^verbatim>\<open>/etc/passwd\<close> outside the root
  \<^verbatim>\<open>/home/proj\<close>, the result is the \<^verbatim>\<open>ValueError\<close> of the missing term and not AccessDenied.
\<close>

theorem search_escaping_path_not_denied:
  "resolve example_env ''../../etc/passwd'' = [''etc'', ''passwd'']
   \<and> \<not> prefix (project_root example_env) (resolve example_env ''../../etc/passwd'')
   \<and> search_files example_env example_fs ''../../etc/passwd'' [] None False 50 =
     (Inl \<lparr>er_success = False,
           er_error = ''Search term is required'',
           er_error_type = ''ValueError'',
           er_timestamp = ''2024-05-01T12:00:00''\<rparr>, [])
   \<and> search_files example_env example_fs ''../../etc/passwd'' [] None False 50
     \<noteq> (Inl (access_denied example_env ''../../etc/passwd''), [])"
  by (simp add: search_files_def search_files_body_def error_envelope_def access_denied_def
      example_escape example_now example_root)

subsection \<open>The size ceiling of \<^verbatim>\<open>read_file\<close>\<close>

text \<open>
  Claim C2: for every regular file whose size as reported by \<^verbatim>\<open>stat\<close> exceeds 10 MiB
  (\<open>10 * 1024 * 1024\<close> bytes), \<^verbatim>\<open>read_file\<close> fails with the TooLarge condition (the
  \<^verbatim>\<open>ValueError\<close> "File too large"), whatever the bytes of the file are and whether it
  could be opened or not; the calls made up to then are \<^verbatim>\<open>exists\<close>, \<^verbatim>\<open>is_file\<close> and
  \<^verbatim>\<open>stat\<close>, so nothing has been opened or read.
\<close>

theorem read_file_too_large:
  assumes inside: "prefix (project_root env) (resolve env p)"
    and regular: "fs_lookup fs (resolve env p) = Some (File s content readable)"
    and big: "st_size s > 10 * 1024 * 1024"
  shows "read_file env fs p =
     (Inl \<lparr>er_success = False,
           er_error = ''File too large ('' @ str_of_nat (st_size s)
                      @ '' bytes). Maximum size is '' @ str_of_nat MAX_FILE_SIZE @ '' bytes.'',
           er_error_type = ''ValueError'',
           er_timestamp = now env\<rparr>,
      [Exists (resolve env p), IsFile (resolve env p), Stat (resolve env p)])"
proof -
  from big have "MAX_FILE_SIZE < st_size s"
    by (simp add: MAX_FILE_SIZE_def)
  with inside regular show ?thesis
    by (simp add: read_file_def read_file_body_def get_safe_path_inside path_exists_def
        path_is_file_def path_stat_def fs_op_def Let_def io_raise_def error_envelope_def)
qed

theorem read_file_too_large_witness:
  "prefix (project_root example_env) (resolve example_env ''huge.txt'')
   \<and> fs_lookup example_fs (resolve example_env ''huge.txt'')
       = Some (File (st 10485761 2) ''x'' True)
   \<and> st_size (st 10485761 2) > 10 * 1024 * 1024
   \<and> read_file example_env example_fs ''huge.txt'' =
     (Inl \<lparr>er_success = False,
           er_error = ''File too large (10485761 bytes). Maximum size is 10485760 bytes.'',
           er_error_type = ''ValueError'',
           er_timestamp = ''2024-05-01T12:00:00''\<rparr>,
      [Exists [''home'', ''proj'', ''huge.txt''], IsFile [''home'', ''proj'', ''huge.txt''],
       Stat [''home'', ''proj'', ''huge.txt'']])"
proof -
  have r: "resolve example_env ''huge.txt'' = [''home'', ''proj'', ''huge.txt'']"
    by (simp add: resolve_def example_env_def)
  have i: "prefix (project_root example_env) (resolve example_env ''huge.txt'')"
    by (simp add: r example_root)
  have l: "fs_lookup example_fs (resolve example_env ''huge.txt'')
           = Some (File (st 10485761 2) ''x'' True)"
    by (simp add: r example_fs_def example_proj_def example_children_def)
  have b: "st_size (st 10485761 2) > 10 * 1024 * 1024"
    by (simp add: st_def)
  have n: "str_of_nat 10485761 = ''10485761''" "str_of_nat MAX_FILE_SIZE = ''10485760''"
    by (simp_all add: str_of_nat.simps MAX_FILE_SIZE_def)
  have sz: "st_size (st 10485761 2) = 10485761"
    by (simp add: st_def)
  note t = read_file_too_large [OF i l b, unfolded sz n r example_now]
  from i l b t show ?thesis
    by (simp add: r)
qed

subsection \<open>The listing\<close>






subsection \<open>The search\<close>

lemma fnmatch_star: "fnmatch n ''*''"
  by (induction n) simp_all

lemma fnmatch_dot_star: "fnmatch n ''.*'' = (n \<noteq> [] \<and> hd n = CHR ''.'')"
  by (cases n) (auto simp: fnmatch_star)

lemma fnmatch_star_dot_star: "fnmatch n ''*.*'' = (CHR ''.'' \<in> set n)"
proof (induction n)
  case Nil
  show ?case by simp
next
  case (Cons c cs)
  have "fnmatch (c # cs) ''*.*'' = (fnmatch (c # cs) ''.*'' \<or> fnmatch cs ''*.*'')"
    by simp
  with Cons show ?case
    by (auto simp: fnmatch_dot_star)
qed

lemma glob_children_dot:
  "q \<in> set (glob_children ''*.*'' p ch) \<Longrightarrow> CHR ''.'' \<in> set (path_name q)"
  by (auto simp: glob_children_def path_name_def fnmatch_star_dot_star)

lemma rglob_node_dot:
  "q \<in> set (rglob_node ''*.*'' p n) \<Longrightarrow> CHR ''.'' \<in> set (path_name q)"
proof (induction "''*.*''" p n arbitrary: q rule: rglob_node.induct)
  case (1 p st ch)
  then show ?case
    by (auto dest: glob_children_dot)
qed simp_all

lemma search_loop_outcome:
  "search_loop env fs term maxr files acc = (Inr ms, t) \<Longrightarrow>
     (int (length acc) < maxr \<longrightarrow> int (length ms) \<le> maxr)
     \<and> (\<forall>m\<in>set ms. m \<in> set acc \<or> (\<exists>fp\<in>set files. \<exists>s. m = search_entry env fp s))"
proof (induction files arbitrary: acc ms t)
  case Nil
  then show ?case by (simp add: io_return_def)
next
  case (Cons fp rest)
  let ?step = "if is_substring term (str_lower (path_name fp))
        then io_bind (path_stat fs fp) (\<lambda>stat_info.
               io_return (acc @ [search_entry env fp stat_info]))
        else io_return acc"
  obtain r1 t1 where step: "?step = (r1, t1)"
    by (cases ?step)
  from Cons.prems step obtain acc1 where r1: "r1 = Inr acc1"
    by (cases r1) (auto simp del: io_bind_Inr)
  from step r1 have grow: "acc1 = acc \<or> (\<exists>s. acc1 = acc @ [search_entry env fp s])"
    by (auto simp: path_stat_def fs_op_def io_return_def split: if_splits option.splits fsnode.splits)
  show ?case
  proof (cases "int (length acc1) \<ge> maxr")
    case True
    with Cons.prems step r1 have "ms = acc1"
      by (simp add: io_return_def)
    with grow True show ?thesis
      by auto
  next
    case False
    with Cons.prems step r1 obtain t2 where
      rec: "search_loop env fs term maxr rest acc1 = (Inr ms, t2)"
      by (auto split: prod.splits)
    from Cons.IH [OF rec] False grow show ?thesis
      by fastforce
  qed
qed


lemma io_filter_is_file:
  "\<exists>ys t. io_filter (path_is_file fs) xs = (Inr ys, t) \<and> set ys \<subseteq> set xs"
proof (induction xs)
  case Nil
  show ?case by (simp add: io_return_def)
next
  case (Cons x xs)
  then obtain ys t where "io_filter (path_is_file fs) xs = (Inr ys, t)" "set ys \<subseteq> set xs"
    by blast
  moreover obtain b where "path_is_file fs x = (Inr b, [IsFile x])"
    by (simp add: path_is_file_def fs_op_def)
  ultimately show ?case
    by (auto simp: io_return_def)
qed

lemma search_candidates_outcome:
  "\<exists>found t. search_candidates fs sp recursive = (Inr found, t)
     \<and> (if \<exists>s d r. fs_lookup fs sp = Some (File s d r) then found = [sp]
         else \<forall>q\<in>set found. CHR ''.'' \<in> set (path_name q))"
  by (auto simp: search_candidates_def path_is_file_def path_glob_def path_rglob_def fs_op_def
      io_return_def dest: glob_children_dot rglob_node_dot split: option.splits fsnode.splits)

lemma files_to_search_outcome:
  "\<exists>files t. files_to_search fs sp file_extensions recursive = (Inr files, t)
     \<and> (if \<exists>s d r. fs_lookup fs sp = Some (File s d r) then set files \<subseteq> {sp}
         else \<forall>q\<in>set files. CHR ''.'' \<in> set (path_name q))"
proof -
  obtain found t1 where
    c: "search_candidates fs sp recursive = (Inr found, t1)"
    and f: "if \<exists>s d r. fs_lookup fs sp = Some (File s d r) then found = [sp]
            else \<forall>q\<in>set found. CHR ''.'' \<in> set (path_name q)"
    using search_candidates_outcome by blast
  obtain regular t2 where
    r: "io_filter (path_is_file fs) found = (Inr regular, t2)" and sub: "set regular \<subseteq> set found"
    using io_filter_is_file by blast
  from c r have "files_to_search fs sp file_extensions recursive =
      (Inr (filter (\<lambda>f. extension_filter file_extensions (str_lower (path_suffix f))) regular),
       t1 @ t2)"
    by (simp add: files_to_search_def io_return_def)
  with f sub show ?thesis
    by (auto split: if_splits)
qed

lemma search_files_success:
  assumes "search_files env fs p search_term file_extensions recursive max_results = (Inr r, t)"
  obtains files t1 ms t2 where
    "files_to_search fs (resolve env p) file_extensions recursive = (Inr files, t1)"
    "search_loop env fs (str_lower search_term) max_results files [] = (Inr ms, t2)"
    "sr_files r = sort_matches ms"
    "prefix (project_root env) (resolve env p)"
proof -
  from assms have ne: "search_term \<noteq> []"
    by (auto simp: search_files_def search_files_body_def catch_all_def io_raise_def)
  from assms ne have inside: "prefix (project_root env) (resolve env p)"
    by (auto simp: search_files_def search_files_body_def get_safe_path_def catch_all_def
        io_raise_def Let_def split: if_splits)
  obtain files t1 where
    f: "files_to_search fs (resolve env p) file_extensions recursive = (Inr files, t1)"
    using files_to_search_outcome by blast
  obtain rl t2 where
    l: "search_loop env fs (str_lower search_term) max_results files [] = (rl, t2)"
    by (cases "search_loop env fs (str_lower search_term) max_results files []")
  from assms ne inside f l obtain ms where "rl = Inr ms" "sr_files r = sort_matches ms"
    by (cases rl)
      (auto simp: search_files_def search_files_body_def get_safe_path_inside path_exists_def
        fs_op_def io_raise_def io_return_def Let_def split: if_splits)
  with f l inside that show thesis
    by blast
qed

lemma sort_matches_descending:
  "sorted_wrt (\<lambda>a b. modified_key b \<le> modified_key a) (sort_matches xs)"
proof -
  have "sorted (map modified_key (sort_key modified_key (rev xs)))"
    by (rule sorted_sort_key)
  then show ?thesis
    by (simp add: sort_matches_def sorted_wrt_rev sorted_map)
qed

lemma set_sort_matches [simp]: "set (sort_matches xs) = set xs"
  by (simp add: sort_matches_def)

lemma length_sort_matches [simp]: "length (sort_matches xs) = length xs"
  by (simp add: sort_matches_def)

text \<open>
  Claim C3, as amended: for every successful search with \<^verbatim>\<open>max_results\<close> at least 1, the
  files list has at most \<^verbatim>\<open>max_results\<close> entries and is ordered by \<^verbatim>\<open>modified_time\<close>
  descending; every entry carries a timestamp, which is its sort key.
\<close>

theorem search_bounded_and_ordered:
  assumes ok: "search_files env fs p search_term file_extensions recursive max_results = (Inr r, t)"
    and cap: "1 \<le> max_results"
  shows "int (length (sr_files r)) \<le> max_results
     \<and> sorted_wrt (\<lambda>a b. modified_key b \<le> modified_key a) (sr_files r)
     \<and> (\<forall>f\<in>set (sr_files r). \<exists>ts. fi_modified_time f = Some ts \<and> modified_key f = ts)"
proof -
  from search_files_success [OF ok] obtain files t1 ms t2 where
    loop: "search_loop env fs (str_lower search_term) max_results files [] = (Inr ms, t2)"
    and res: "sr_files r = sort_matches ms"
    by metis
  from search_loop_outcome [OF loop] cap have
    len: "int (length ms) \<le> max_results"
    and each: "\<forall>m\<in>set ms. \<exists>fp\<in>set files. \<exists>s. m = search_entry env fp s"
    by auto
  from each have "\<forall>f\<in>set ms. \<exists>ts. fi_modified_time f = Some ts \<and> modified_key f = ts"
    by (auto simp: search_entry_def modified_key_def)
  with len res show ?thesis
    by (simp add: sort_matches_descending)
qed

lemma example_search_capped:
  "map_sum er_error_type (\<lambda>r. (map fi_name (sr_files r), map fi_modified_time (sr_files r)))
     (fst (search_files example_env example_fs [] ''a'' None False 2))
   = Inr ([''a.txt'', ''bad.txt''],
          [Some ''1970-01-01T00:00:05'', Some ''1970-01-01T00:00:04''])"
  by (simp add: search_files_def search_files_body_def run_defs ex_defs str_of_nat.simps)

theorem search_bounded_and_ordered_witness:
  "(1::int) \<le> 2
   \<and> (\<exists>r t. search_files example_env example_fs [] ''a'' None False 2 = (Inr r, t)
        \<and> int (length (sr_files r)) \<le> 2
        \<and> sorted_wrt (\<lambda>a b. modified_key b \<le> modified_key a) (sr_files r)
        \<and> map fi_name (sr_files r) = [''a.txt'', ''bad.txt'']
        \<and> map fi_modified_time (sr_files r)
            = [Some ''1970-01-01T00:00:05'', Some ''1970-01-01T00:00:04''])"
proof -
  obtain x t where run: "search_files example_env example_fs [] ''a'' None False 2 = (x, t)"
    by (cases "search_files example_env example_fs [] ''a'' None False 2")
  with example_search_capped obtain r where x: "x = Inr r"
    and names: "map fi_name (sr_files r) = [''a.txt'', ''bad.txt'']"
    and times: "map fi_modified_time (sr_files r)
                = [Some ''1970-01-01T00:00:05'', Some ''1970-01-01T00:00:04'']"
    by (cases x) auto
  from search_bounded_and_ordered [OF run [unfolded x]] names times run x show ?thesis
    by simp
qed

text \<open>
  Claim C3, as stated, fails twice. With \<^verbatim>\<open>max_results = 0\<close> the search for \<^verbatim>\<open>b\<close> in the
  project returns one entry: the length is compared with the cap after the match is
  appended. And the ordering step, which keys a missing timestamp as the empty string,
  puts such an entry last, not first, since the order is descending.
\<close>

theorem search_cap_and_order_refuted:
  "map_sum er_error_type (\<lambda>r. (map fi_name (sr_files r), sr_total_matches r, sr_max_results r))
     (fst (search_files example_env example_fs [] ''b'' None False 0))
   = Inr ([''b.txt''], 1, 0)
   \<and> fi_modified_time example_untimed = None
   \<and> fi_modified_time example_timed = Some ''1970-01-01T00:00:05''
   \<and> sort_matches [example_untimed, example_timed] = [example_timed, example_untimed]"
  by (simp add: search_files_def search_files_body_def run_defs ex_defs str_of_nat.simps
      example_timed_def example_untimed_def)






subsection \<open>Base64\<close>

lemma b64_distinct: "distinct b64_alphabet"
  by (simp add: b64_alphabet_def)

lemma b64_length: "length b64_alphabet = 64"
  by (simp add: b64_alphabet_def)

lemma index_nth:
  "distinct xs \<Longrightarrow> i < length xs \<Longrightarrow> length (takeWhile (\<lambda>x. x \<noteq> xs ! i) xs) = i"
  by (induction xs arbitrary: i) (auto simp: nth_Cons split: nat.splits)

lemma b64_index_char: "b64_index (b64_char i) = Some (i mod 64)"
  by (simp add: b64_index_def b64_char_def index_nth b64_distinct b64_length)

lemma b64_char_not_pad: "b64_char i \<noteq> CHR ''=''"
proof -
  have "CHR ''='' \<notin> set b64_alphabet"
    by (simp add: b64_alphabet_def)
  moreover have "b64_char i \<in> set b64_alphabet"
    by (simp add: b64_char_def b64_length)
  ultimately show ?thesis by metis
qed

text \<open>The digits of one, two and three bytes give the bytes back.\<close>

lemma digits_12:
  "x < (256::nat) \<Longrightarrow> y < 256 \<Longrightarrow>
   (x div 4) mod 64 * 4 + (x mod 4 * 16 + y div 16) mod 64 div 16 = x"
  by (simp add: div_add1_eq mod_mult2_eq)

lemma digits_1_pad:
  "x < (256::nat) \<Longrightarrow> (x div 4) mod 64 * 4 + (x mod 4 * 16) mod 64 div 16 = x"
  by (simp add: div_add1_eq mod_mult2_eq)

lemma digits_1_norm:
  "x < (256::nat) \<Longrightarrow> x div 4 mod 64 * 4 + x mod 4 = x"
  by (simp add: div_add1_eq mod_mult2_eq)

lemma digits_2_norm:
  "y < (256::nat) \<Longrightarrow> (x mod 4 * 16 + y div 16) mod 64 mod 16 * 16 + y mod 16 = y"
  by (simp add: div_add1_eq mod_mult2_eq)

lemma digits_3_norm:
  "z < (256::nat) \<Longrightarrow> (y mod 16 * 4 + z div 64) mod 64 mod 4 * 64 + z mod 64 = z"
  by (simp add: div_add1_eq mod_mult2_eq)

lemma digits_23:
  "y < (256::nat) \<Longrightarrow> z < 256 \<Longrightarrow>
   (x mod 4 * 16 + y div 16) mod 64 mod 16 * 16 + (y mod 16 * 4 + z div 64) mod 64 div 4 = y"
  by (simp add: div_add1_eq mod_mult2_eq)

lemma digits_2_pad:
  "y < (256::nat) \<Longrightarrow>
   (x mod 4 * 16 + y div 16) mod 64 mod 16 * 16 + (y mod 16 * 4) mod 64 div 4 = y"
  by (simp add: div_add1_eq mod_mult2_eq)

lemma digits_34:
  "z < (256::nat) \<Longrightarrow> (y mod 16 * 4 + z div 64) mod 64 mod 4 * 64 + (z mod 64) mod 64 = z"
  by (simp add: div_add1_eq mod_mult2_eq)

lemma b64_roundtrip: "b64decode (b64encode bs) = Some bs"
proof (induction bs rule: b64encode.induct)
  case 1
  show ?case by simp
next
  case (2 a)
  show ?case
    by (simp add: Let_def b64_index_char b64_char_not_pad digits_1_pad digits_1_norm)
next
  case (3 a b)
  show ?case
    by (simp add: Let_def b64_index_char b64_char_not_pad digits_12 digits_2_pad digits_2_norm)
next
  case (4 a b c rest)
  then show ?case
    by (simp add: Let_def b64_index_char b64_char_not_pad digits_12 digits_23 digits_34
        digits_3_norm)
qed

subsection \<open>Reading\<close>

lemma example_resolve:
  "resolve example_env ''a.txt'' = [''home'', ''proj'', ''a.txt'']"
  "resolve example_env ''main.py'' = [''home'', ''proj'', ''main.py'']"
  "resolve example_env ''locked.txt'' = [''home'', ''proj'', ''locked.txt'']"
  "resolve example_env ''bad.txt'' = [''home'', ''proj'', ''bad.txt'']"
  "resolve example_env ''logo.png'' = [''home'', ''proj'', ''logo.png'']"
  by (simp_all add: resolve_def example_env_def)

lemma example_lookup:
  "fs_lookup example_fs [''home'', ''proj'', ''a.txt'']
     = Some (File (st 11 5) (''hello'' @ [CHR 0x0A] @ ''world'') True)"
  "fs_lookup example_fs [''home'', ''proj'', ''main.py'']
     = Some (File (st 9 12) (''print(1)'' @ [CHR 0x0A]) True)"
  "fs_lookup example_fs [''home'', ''proj'', ''locked.txt'']
     = Some (File (st 5 1) ''12345'' False)"
  "fs_lookup example_fs [''home'', ''proj'', ''bad.txt'']
     = Some (File (st 2 4) [CHR 0xFF, CHR ''A''] True)"
  "fs_lookup example_fs [''home'', ''proj'', ''logo.png'']
     = Some (File (st 3 3) [CHR 0x89, CHR ''P'', CHR 0x00] True)"
  by (simp_all add: example_fs_def example_proj_def example_children_def)

lemma example_mime:
  "guess_type example_env (path_str [''home'', ''proj'', ''a.txt'']) = Some ''text/plain''"
  "guess_type example_env (path_str [''home'', ''proj'', ''main.py'']) = None"
  "guess_type example_env (path_str [''home'', ''proj'', ''locked.txt'']) = Some ''text/plain''"
  "guess_type example_env (path_str [''home'', ''proj'', ''bad.txt'']) = Some ''text/plain''"
  "guess_type example_env (path_str [''home'', ''proj'', ''logo.png'']) = Some ''image/png''"
  by (simp_all add: example_env_def example_guess_type_def path_str_def suffix_to_prefix)

lemma example_suffix:
  "str_lower (path_suffix [''home'', ''proj'', ''main.py'']) = ''.py''"
  "str_lower (path_suffix [''home'', ''proj'', ''bad.txt'']) = ''.txt''"
  "str_lower (path_suffix [''home'', ''proj'', ''logo.png'']) = ''.png''"
  by (simp_all add: path_suffix_def path_name_def rfind_def str_lower_def char_lower_def)

lemma example_inside: "prefix (project_root example_env) [''home'', ''proj'', x]"
  by (simp add: example_root)

text \<open>
  Claim C7: for every file that \<^verbatim>\<open>read_file\<close> classifies binary (its MIME type is not
  textual and its extension is not in the allow-list; it is readable and within the
  size ceiling, so that it is classified at all), with bytes \<open>content\<close>, the result
  succeeds, the Base64 decoding of its \<^verbatim>\<open>content\<close> is \<open>content\<close> exactly, its \<^verbatim>\<open>encoding\<close> is
  \<^verbatim>\<open>base64\<close> and its \<^verbatim>\<open>line_count\<close> is 0.
\<close>

theorem read_binary_roundtrip:
  assumes inside: "prefix (project_root env) (resolve env p)"
    and regular: "fs_lookup fs (resolve env p) = Some (File s content True)"
    and small: "st_size s \<le> 10 * 1024 * 1024"
    and mime: "\<not> is_text_mime (guess_type env (path_str (resolve env p)))"
    and ext: "str_lower (path_suffix (resolve env p)) \<notin> set text_extensions"
  shows "\<exists>r t. read_file env fs p = (Inr r, t)
           \<and> b64decode (rr_content r) = Some content
           \<and> rr_encoding r = ''base64''
           \<and> rr_line_count r = 0"
proof -
  from small have "\<not> MAX_FILE_SIZE < st_size s"
    by (simp add: MAX_FILE_SIZE_def)
  with inside regular mime ext show ?thesis
    by (simp add: read_file_def read_file_body_def get_safe_path_inside path_exists_def
        path_is_file_def path_stat_def read_bytes_def open_result_def fs_op_def io_return_def
        Let_def b64_roundtrip)
qed

theorem read_binary_roundtrip_witness:
  "prefix (project_root example_env) (resolve example_env ''logo.png'')
   \<and> fs_lookup example_fs (resolve example_env ''logo.png'')
       = Some (File (st 3 3) [CHR 0x89, CHR ''P'', CHR 0x00] True)
   \<and> st_size (st 3 3) \<le> 10 * 1024 * 1024
   \<and> \<not> is_text_mime (guess_type example_env (path_str (resolve example_env ''logo.png'')))
   \<and> str_lower (path_suffix (resolve example_env ''logo.png'')) \<notin> set text_extensions
   \<and> (\<exists>r t. read_file example_env example_fs ''logo.png'' = (Inr r, t)
         \<and> b64decode (rr_content r) = Some [CHR 0x89, CHR ''P'', CHR 0x00]
         \<and> rr_encoding r = ''base64''
         \<and> rr_line_count r = 0)
   \<and> b64encode [CHR 0x89, CHR ''P'', CHR 0x00] = ''iVAA''"
proof -
  have i: "prefix (project_root example_env) (resolve example_env ''logo.png'')"
    by (simp add: example_resolve example_inside)
  have l: "fs_lookup example_fs (resolve example_env ''logo.png'')
           = Some (File (st 3 3) [CHR 0x89, CHR ''P'', CHR 0x00] True)"
    by (simp add: example_resolve example_lookup)
  have b: "st_size (st 3 3) \<le> 10 * 1024 * 1024"
    by (simp add: st_def)
  have m: "\<not> is_text_mime (guess_type example_env (path_str (resolve example_env ''logo.png'')))"
    by (simp add: example_resolve example_mime is_text_mime_def startswith_def)
  have e: "str_lower (path_suffix (resolve example_env ''logo.png'')) \<notin> set text_extensions"
    by (simp add: example_resolve example_suffix text_extensions_def)
  have c: "b64encode [CHR 0x89, CHR ''P'', CHR 0x00] = ''iVAA''"
    by (simp add: b64_char_def b64_alphabet_def)
  from read_binary_roundtrip [OF i l b m e] i l b m e c show ?thesis
    by blast
qed

text \<open>
  Claim C6, as amended: for every readable file within the size ceiling whose extension
  is in the text allow-list, whatever its bytes, \<^verbatim>\<open>read_file\<close> succeeds and reports
  \<^verbatim>\<open>encoding == "text"\<close>; the content is the UTF-8 decoding with the invalid bytes
  dropped, and the file is opened once, as UTF-8: the Latin-1 retry and the Base64
  fallback are not reached.
\<close>

theorem read_text_extension_drops_invalid:
  assumes inside: "prefix (project_root env) (resolve env p)"
    and regular: "fs_lookup fs (resolve env p) = Some (File s content True)"
    and small: "st_size s \<le> 10 * 1024 * 1024"
    and ext: "str_lower (path_suffix (resolve env p)) \<in> set text_extensions"
  shows "\<exists>r. read_file env fs p =
           (Inr r, [Exists (resolve env p), IsFile (resolve env p), Stat (resolve env p),
                    Stat (resolve env p), OpenText (resolve env p) ''utf-8''])
           \<and> rr_encoding r = ''text''
           \<and> rr_is_text r
           \<and> rr_content r = concat (readlines (universal_newlines (utf8_ignore content)))
           \<and> rr_line_count r = length (readlines (universal_newlines (utf8_ignore content)))"
proof -
  from small have "\<not> MAX_FILE_SIZE < st_size s"
    by (simp add: MAX_FILE_SIZE_def)
  with inside regular ext show ?thesis
    by (simp add: read_file_def read_file_body_def get_safe_path_inside path_exists_def
        path_is_file_def path_stat_def read_text_def read_text_lines_def open_result_def
        decode_ignore_def fs_op_def io_return_def Let_def)
qed

theorem read_text_extension_drops_invalid_witness:
  "prefix (project_root example_env) (resolve example_env ''bad.txt'')
   \<and> fs_lookup example_fs (resolve example_env ''bad.txt'')
       = Some (File (st 2 4) [CHR 0xFF, CHR ''A''] True)
   \<and> st_size (st 2 4) \<le> 10 * 1024 * 1024
   \<and> str_lower (path_suffix (resolve example_env ''bad.txt'')) \<in> set text_extensions
   \<and> (\<exists>r. read_file example_env example_fs ''bad.txt'' =
           (Inr r,
            [Exists [''home'', ''proj'', ''bad.txt''], IsFile [''home'', ''proj'', ''bad.txt''],
             Stat [''home'', ''proj'', ''bad.txt''], Stat [''home'', ''proj'', ''bad.txt''],
             OpenText [''home'', ''proj'', ''bad.txt''] ''utf-8''])
         \<and> rr_encoding r = ''text''
         \<and> rr_is_text r
         \<and> rr_content r = ''A''
         \<and> rr_line_count r = 1)"
proof -
  have i: "prefix (project_root example_env) (resolve example_env ''bad.txt'')"
    by (simp add: example_resolve example_inside)
  have l: "fs_lookup example_fs (resolve example_env ''bad.txt'')
           = Some (File (st 2 4) [CHR 0xFF, CHR ''A''] True)"
    by (simp add: example_resolve example_lookup)
  have b: "st_size (st 2 4) \<le> 10 * 1024 * 1024"
    by (simp add: st_def)
  have e: "str_lower (path_suffix (resolve example_env ''bad.txt'')) \<in> set text_extensions"
    by (simp add: example_resolve example_suffix text_extensions_def)
  have u: "utf8_ignore [CHR 0xFF, CHR ''A''] = ''A''"
    by (simp add: utf8_len_def in_range_def)
  note t = read_text_extension_drops_invalid [OF i l b e, unfolded u]
  from t i l b e show ?thesis
    by (simp add: example_resolve)
qed

text \<open>
  Claim C6, as stated, fails: \<^verbatim>\<open>bad.txt\<close> holds the bytes \<open>FF 41\<close>, which are not valid
  UTF-8, and its extension is in the allow-list. The read succeeds with the content
  \<^verbatim>\<open>A\<close>, the invalid byte dropped, where Latin-1 would have given two characters; the
  only open is the UTF-8 one, so the result does not come from the Latin-1 fallback.
\<close>

theorem read_invalid_utf8_not_latin1:
  "str_lower (path_suffix (resolve example_env ''bad.txt'')) \<in> set text_extensions
   \<and> fs_lookup example_fs (resolve example_env ''bad.txt'')
       = Some (File (st 2 4) [CHR 0xFF, CHR ''A''] True)
   \<and> utf8_ignore [CHR 0xFF, CHR ''A''] = ''A''
   \<and> latin1_decode [CHR 0xFF, CHR ''A''] = [CHR 0xC3, CHR 0xBF, CHR ''A'']
   \<and> read_file example_env example_fs ''bad.txt'' =
       (Inr \<lparr>rr_success = True, rr_action = ''read'', rr_path = ''/home/proj/bad.txt'',
             rr_relative_path = ''bad.txt'', rr_content = ''A'', rr_encoding = ''text'',
             rr_line_count = 1, rr_size = 2, rr_mime_type = ''text/plain'', rr_is_text = True,
             rr_timestamp = ''2024-05-01T12:00:00''\<rparr>,
        [Exists [''home'', ''proj'', ''bad.txt''], IsFile [''home'', ''proj'', ''bad.txt''],
         Stat [''home'', ''proj'', ''bad.txt''], Stat [''home'', ''proj'', ''bad.txt''],
         OpenText [''home'', ''proj'', ''bad.txt''] ''utf-8''])"
proof -
  have e: "str_lower (path_suffix (resolve example_env ''bad.txt'')) \<in> set text_extensions"
    by (simp add: example_resolve example_suffix text_extensions_def)
  have l: "fs_lookup example_fs (resolve example_env ''bad.txt'')
           = Some (File (st 2 4) [CHR 0xFF, CHR ''A''] True)"
    by (simp add: example_resolve example_lookup)
  have u: "utf8_ignore [CHR 0xFF, CHR ''A''] = ''A''"
    by (simp add: utf8_len_def in_range_def)
  have d: "latin1_decode [CHR 0xFF, CHR ''A''] = [CHR 0xC3, CHR 0xBF, CHR ''A'']"
    by (simp add: latin1_decode_def latin1_char_def char_of_eq_iff)
  have r: "read_file example_env example_fs ''bad.txt'' =
       (Inr \<lparr>rr_success = True, rr_action = ''read'', rr_path = ''/home/proj/bad.txt'',
             rr_relative_path = ''bad.txt'', rr_content = ''A'', rr_encoding = ''text'',
             rr_line_count = 1, rr_size = 2, rr_mime_type = ''text/plain'', rr_is_text = True,
             rr_timestamp = ''2024-05-01T12:00:00''\<rparr>,
        [Exists [''home'', ''proj'', ''bad.txt''], IsFile [''home'', ''proj'', ''bad.txt''],
         Stat [''home'', ''proj'', ''bad.txt''], Stat [''home'', ''proj'', ''bad.txt''],
         OpenText [''home'', ''proj'', ''bad.txt''] ''utf-8''])"
    by (simp add: read_file_def read_file_body_def read_text_def decode_ignore_def run_defs
        ex_defs utf8_len_def in_range_def MAX_FILE_SIZE_def is_text_mime_def startswith_def
        text_extensions_def)
  from e l u d r show ?thesis
    by blast
qed

subsection \<open>Path info\<close>



subsection \<open>The envelope\<close>

lemma returns_return: "P x \<Longrightarrow> returns P (io_return x)"
  by (simp add: returns_def io_return_def)

lemma returns_raise: "returns P (io_raise e)"
  by (simp add: returns_def io_raise_def)

lemma returns_bind:
  assumes "\<And>x. returns P (f x)"
  shows "returns P (io_bind m f)"
proof (cases m)
  case (Pair r t)
  show ?thesis
  proof (cases r)
    case (Inl e)
    with Pair show ?thesis
      by (simp add: returns_def)
  next
    case (Inr x)
    with Pair assms [of x] show ?thesis
      by (cases "f x") (simp add: returns_def)
  qed
qed

lemma returns_if:
  "(c \<Longrightarrow> returns P a) \<Longrightarrow> (\<not> c \<Longrightarrow> returns P b) \<Longrightarrow> returns P (if c then a else b)"
  by simp

lemma returns_case_prod:
  "(\<And>a b. returns P (f a b)) \<Longrightarrow> returns P (case_prod f x)"
  by (cases x) simp

lemma catch_all_shape:
  assumes "returns P m"
  shows "case fst (catch_all env m) of
           Inl e \<Rightarrow> \<exists>cls msg. e = \<lparr>er_success = False, er_error = msg,
                                     er_error_type = class_name cls, er_timestamp = now env\<rparr>
         | Inr r \<Rightarrow> P r"
proof (cases m)
  case (Pair x t)
  with assms show ?thesis
    by (cases x) (auto simp: returns_def error_envelope_def)
qed

lemma list_directory_returns:
  "returns (\<lambda>r. lr_success r \<and> lr_action r = ''list'' \<and> lr_timestamp r = now env)
     (list_directory_body env fs p file_extensions)"
  unfolding list_directory_body_def Let_def
  by (intro returns_bind returns_if returns_raise returns_return returns_case_prod) simp

lemma read_file_returns:
  "returns (\<lambda>r. rr_success r \<and> rr_action r = ''read'' \<and> rr_timestamp r = now env)
     (read_file_body env fs p)"
  unfolding read_file_body_def Let_def
  by (intro returns_bind returns_if returns_raise returns_return returns_case_prod) simp

lemma search_files_returns:
  "returns (\<lambda>r. sr_success r \<and> sr_action r = ''search'' \<and> sr_timestamp r = now env)
     (search_files_body env fs p search_term file_extensions recursive max_results)"
  unfolding search_files_body_def Let_def
  by (intro returns_bind returns_if returns_raise returns_return returns_case_prod) simp

lemma get_file_info_returns:
  "returns (\<lambda>r. ir_success r \<and> ir_action r = ''info'' \<and> ir_timestamp r = now env)
     (get_file_info_body env fs p)"
  unfolding get_file_info_body_def Let_def
  by (intro returns_bind returns_if returns_raise returns_return returns_case_prod) simp

text \<open>
  Claim C8: for every input, each of the four operations returns one of two shapes and
  raises nothing: the failure envelope, with \<^verbatim>\<open>success\<close> false, a message, the name of an
  exception class as \<^verbatim>\<open>error_type\<close> and the timestamp, or the success envelope of the
  operation, with \<^verbatim>\<open>success\<close> true, its \<^verbatim>\<open>action\<close> and the timestamp.
\<close>

theorem operations_return_envelopes:
  "(case fst (list_directory env fs p file_extensions) of
      Inl e \<Rightarrow> \<exists>cls msg. e = \<lparr>er_success = False, er_error = msg,
                                er_error_type = class_name cls, er_timestamp = now env\<rparr>
    | Inr r \<Rightarrow> lr_success r \<and> lr_action r = ''list'' \<and> lr_timestamp r = now env)
   \<and> (case fst (read_file env fs p) of
      Inl e \<Rightarrow> \<exists>cls msg. e = \<lparr>er_success = False, er_error = msg,
                                er_error_type = class_name cls, er_timestamp = now env\<rparr>
    | Inr r \<Rightarrow> rr_success r \<and> rr_action r = ''read'' \<and> rr_timestamp r = now env)
   \<and> (case fst (search_files env fs p search_term file_extensions recursive max_results) of
      Inl e \<Rightarrow> \<exists>cls msg. e = \<lparr>er_success = False, er_error = msg,
                                er_error_type = class_name cls, er_timestamp = now env\<rparr>
    | Inr r \<Rightarrow> sr_success r \<and> sr_action r = ''search'' \<and> sr_timestamp r = now env)
   \<and> (case fst (get_file_info env fs p) of
      Inl e \<Rightarrow> \<exists>cls msg. e = \<lparr>er_success = False, er_error = msg,
                                er_error_type = class_name cls, er_timestamp = now env\<rparr>
    | Inr r \<Rightarrow> ir_success r \<and> ir_action r = ''info'' \<and> ir_timestamp r = now env)"
  unfolding list_directory_def read_file_def search_files_def get_file_info_def
  by (intro conjI catch_all_shape list_directory_returns read_file_returns
      search_files_returns get_file_info_returns)

lemma example_missing:
  "read_file example_env example_fs ''ghost.txt'' =
     (Inl \<lparr>er_success = False, er_error = ''File not found: /home/proj/ghost.txt'',
           er_error_type = ''FileNotFoundError'', er_timestamp = ''2024-05-01T12:00:00''\<rparr>,
      [Exists [''home'', ''proj'', ''ghost.txt'']])"
  by (simp add: read_file_def read_file_body_def run_defs ex_defs)

theorem operations_return_envelopes_witness:
  "(case fst (list_directory example_env example_fs ''ghost.txt'' None) of
      Inl e \<Rightarrow> \<exists>cls msg. e = \<lparr>er_success = False, er_error = msg,
                                er_error_type = class_name cls, er_timestamp = now example_env\<rparr>
    | Inr r \<Rightarrow> lr_success r \<and> lr_action r = ''list'' \<and> lr_timestamp r = now example_env)
   \<and> (case fst (read_file example_env example_fs ''ghost.txt'') of
      Inl e \<Rightarrow> \<exists>cls msg. e = \<lparr>er_success = False, er_error = msg,
                                er_error_type = class_name cls, er_timestamp = now example_env\<rparr>
    | Inr r \<Rightarrow> rr_success r \<and> rr_action r = ''read'' \<and> rr_timestamp r = now example_env)
   \<and> (case fst (search_files example_env example_fs ''ghost.txt'' ''g'' None False 50) of
      Inl e \<Rightarrow> \<exists>cls msg. e = \<lparr>er_success = False, er_error = msg,
                                er_error_type = class_name cls, er_timestamp = now example_env\<rparr>
    | Inr r \<Rightarrow> sr_success r \<and> sr_action r = ''search'' \<and> sr_timestamp r = now example_env)
   \<and> (case fst (get_file_info example_env example_fs ''ghost.txt'') of
      Inl e \<Rightarrow> \<exists>cls msg. e = \<lparr>er_success = False, er_error = msg,
                                er_error_type = class_name cls, er_timestamp = now example_env\<rparr>
    | Inr r \<Rightarrow> ir_success r \<and> ir_action r = ''info'' \<and> ir_timestamp r = now example_env)
   \<and> read_file example_env example_fs ''ghost.txt'' =
     (Inl \<lparr>er_success = False, er_error = ''File not found: /home/proj/ghost.txt'',
           er_error_type = ''FileNotFoundError'', er_timestamp = ''2024-05-01T12:00:00''\<rparr>,
      [Exists [''home'', ''proj'', ''ghost.txt'']])"
  using operations_return_envelopes
    [of example_env example_fs "''ghost.txt''" None "''g''" False 50] example_missing
  by blast

end
